theory Spec2Isabelle
  imports Main "HOL-Library.Word" "HOL-Library.Sublist"
begin

section \<open>The AutoNAT v2 server of go-libp2p: rate limiter\<close>

text \<open>
  The development follows \<^verbatim>\<open>p2p/protocol/autonatv2/server.go\<close>. This first part is the
  sliding-window rate limiter (\<^verbatim>\<open>rateLimiter\<close>, lines 291--399).

  A \<^verbatim>\<open>time.Time\<close> is a number of nanoseconds on the clock's axis, and a
  \<^verbatim>\<open>time.Duration\<close> a signed 64-bit number of nanoseconds. \<^verbatim>\<open>Time.Sub\<close> is Go's: the
  difference, saturated at the least and the greatest duration.
\<close>

type_synonym time = int

definition minDuration :: int where
  "minDuration = - (2 ^ 63)"

definition maxDuration :: int where
  "maxDuration = 2 ^ 63 - 1"

definition Minute :: int where
  "Minute = 60 * 1000000000"

definition Sub :: "time \<Rightarrow> time \<Rightarrow> int" where
  "Sub t u =
     (let d = t - u in
      if d < minDuration then minDuration
      else if maxDuration < d then maxDuration
      else d)"

text \<open>
  A Go run-time panic is a value of the model. The limiter can raise one only by
  assigning to an entry of a nil map.
\<close>

datatype panic = AssignNilMap | IntnNonPositive

record 'p entry =
  PeerID :: 'p
  Time :: time

text \<open>
  The struct \<^verbatim>\<open>rateLimiter\<close>. The mutex is left out: every exported method holds it from
  its first to its last statement, so a method is one atomic step on the state. The clock
  \<^verbatim>\<open>now\<close> is an argument of the methods that read it. A Go map may be nil (\<open>None\<close>):
  reading a nil map gives the zero value, deleting from it does nothing, assigning to it
  panics. A slice is a list, the nil slice the empty list.
\<close>

record 'p rateLimiter =
  PerPeerRPM :: int
  RPM :: int
  DialDataRPM :: int
  reqs :: "'p entry list"
  peerReqs :: "('p \<rightharpoonup> time list) option"
  dialDataReqs :: "time list"
  ongoingReqs :: "'p set option"

text \<open>The map read \<^verbatim>\<open>r.peerReqs[p]\<close>: the nil slice when the map is nil or has no entry.\<close>

definition peerReqsAt :: "('p \<rightharpoonup> time list) option \<Rightarrow> 'p \<Rightarrow> time list" where
  "peerReqsAt m p =
     (case m of
        None \<Rightarrow> []
      | Some f \<Rightarrow> (case f p of None \<Rightarrow> [] | Some ts \<Rightarrow> ts))"

text \<open>The map read \<^verbatim>\<open>_, ok := r.ongoingReqs[p]\<close>.\<close>

definition ongoing :: "'p set option \<Rightarrow> 'p \<Rightarrow> bool" where
  "ongoing s p = (case s of None \<Rightarrow> False | Some ps \<Rightarrow> p \<in> ps)"

text \<open>
  The two scans over a list of times in \<^verbatim>\<open>cleanup\<close> (lines 366--372 and 384--390):
  the index of the first time younger than a minute, or the default \<open>d\<close> (the length, in
  both places) when the range ends without a \<^verbatim>\<open>break\<close>.
\<close>

fun firstRecent :: "time \<Rightarrow> nat \<Rightarrow> nat \<Rightarrow> time list \<Rightarrow> nat" where
  "firstRecent now d j [] = d"
| "firstRecent now d j (t # ts) =
     (if Sub now t < Minute then j else firstRecent now d (Suc j) ts)"

text \<open>
  Lines 366--376, the body of the outer loop for an expired entry of peer \<open>p\<close>: the peer's
  sublog is cut at the first recent time and stored back, and the map entry is deleted
  when the stored slice has length 0.
\<close>

definition prunePeer ::
  "time \<Rightarrow> 'p \<Rightarrow> ('p \<rightharpoonup> time list) option \<Rightarrow> panic + ('p \<rightharpoonup> time list) option" where
  "prunePeer now p m =
     (let ts = peerReqsAt m p;
          pi = firstRecent now (length ts) 0 ts
      in case m of
           None \<Rightarrow> Inl AssignNilMap
         | Some f \<Rightarrow>
             (let f' = f(p \<mapsto> drop pi ts)
              in Inr (Some (if length (peerReqsAt (Some f') p) = 0 then f'(p := None) else f'))))"

text \<open>
  Lines 363--381, the outer loop over \<^verbatim>\<open>r.reqs\<close> from index \<open>i\<close>: it returns \<open>idx\<close> and the
  per-peer map. It stops at the first entry younger than a minute.
\<close>

fun scanReqs ::
  "time \<Rightarrow> nat \<Rightarrow> nat \<Rightarrow> 'p entry list \<Rightarrow> ('p \<rightharpoonup> time list) option
     \<Rightarrow> panic + (nat \<times> ('p \<rightharpoonup> time list) option)" where
  "scanReqs now idx i [] m = Inr (idx, m)"
| "scanReqs now idx i (e # es) m =
     (if Sub now (Time e) \<ge> Minute then
        (case prunePeer now (PeerID e) m of
           Inl x \<Rightarrow> Inl x
         | Inr m' \<Rightarrow> scanReqs now idx (Suc i) es m')
      else Inr (i, m))"

definition cleanup :: "time \<Rightarrow> 'p rateLimiter \<Rightarrow> panic + 'p rateLimiter" where
  "cleanup now r =
     (case scanReqs now (length (reqs r)) 0 (reqs r) (peerReqs r) of
        Inl x \<Rightarrow> Inl x
      | Inr (idx, m) \<Rightarrow>
          Inr (r\<lparr>peerReqs := m,
                 reqs := drop idx (reqs r),
                 dialDataReqs :=
                   drop (firstRecent now (length (dialDataReqs r)) 0 (dialDataReqs r))
                     (dialDataReqs r)\<rparr>))"

text \<open>Lines 321--324 and 345--348: both maps are made when \<^verbatim>\<open>peerReqs\<close> is nil.\<close>

definition makeMaps :: "'p rateLimiter \<Rightarrow> 'p rateLimiter" where
  "makeMaps r =
     (if peerReqs r = None
      then r\<lparr>peerReqs := Some Map.empty, ongoingReqs := Some {}\<rparr>
      else r)"

text \<open>
  \<^verbatim>\<open>Accept\<close> (lines 318--340), with the clock reading \<open>nw\<close>. The result is the returned
  boolean and the limiter after the call.
\<close>

definition Accept :: "time \<Rightarrow> 'p \<Rightarrow> 'p rateLimiter \<Rightarrow> panic + (bool \<times> 'p rateLimiter)" where
  "Accept nw p r0 =
     (case cleanup nw (makeMaps r0) of
        Inl x \<Rightarrow> Inl x
      | Inr r \<Rightarrow>
          if ongoing (ongoingReqs r) p then Inr (False, r)
          else if int (length (reqs r)) \<ge> RPM r
                  \<or> int (length (peerReqsAt (peerReqs r) p)) \<ge> PerPeerRPM r
          then Inr (False, r)
          else
            (case ongoingReqs r of
               None \<Rightarrow> Inl AssignNilMap
             | Some ps \<Rightarrow>
                 (case peerReqs r of
                    None \<Rightarrow> Inl AssignNilMap
                  | Some f \<Rightarrow>
                      Inr (True,
                           r\<lparr>ongoingReqs := Some (insert p ps),
                             reqs := reqs r @ [\<lparr>PeerID = p, Time = nw\<rparr>],
                             peerReqs := Some (f(p \<mapsto> peerReqsAt (peerReqs r) p @ [nw]))\<rparr>))))"

text \<open>\<^verbatim>\<open>AcceptDialDataRequest\<close> (lines 342--356).\<close>

definition AcceptDialDataRequest ::
  "time \<Rightarrow> 'p \<Rightarrow> 'p rateLimiter \<Rightarrow> panic + (bool \<times> 'p rateLimiter)" where
  "AcceptDialDataRequest nw p r0 =
     (case cleanup nw (makeMaps r0) of
        Inl x \<Rightarrow> Inl x
      | Inr r \<Rightarrow>
          if int (length (dialDataReqs r)) \<ge> DialDataRPM r then Inr (False, r)
          else Inr (True, r\<lparr>dialDataReqs := dialDataReqs r @ [nw]\<rparr>))"

text \<open>\<^verbatim>\<open>CompleteRequest\<close> (lines 394--399): deleting from a nil map does nothing.\<close>

definition CompleteRequest :: "'p \<Rightarrow> 'p rateLimiter \<Rightarrow> 'p rateLimiter" where
  "CompleteRequest p r =
     (case ongoingReqs r of
        None \<Rightarrow> r
      | Some ps \<Rightarrow> r\<lparr>ongoingReqs := Some (ps - {p})\<rparr>)"

section \<open>Messages, the stream and the world outside the file\<close>

text \<open>
  The protobuf package \<^verbatim>\<open>pb\<close> is not part of the sources at hand; the messages carry the
  fields the server reads and writes. A field that a struct literal leaves out has its
  zero value: 0 for \<^verbatim>\<open>AddrIdx\<close>, and no dial status (\<open>None\<close>).
\<close>

type_synonym bytes = "8 word list"

datatype ResponseStatus =
    DialResponse_E_REQUEST_REJECTED
  | DialResponse_E_DIAL_REFUSED
  | DialResponse_OK

datatype DialStatus =
    DialStatus_E_DIAL_ERROR
  | DialStatus_E_DIAL_BACK_ERROR
  | DialStatus_OK

datatype Message =
    Message_DialRequest "bytes list" "64 word"
  | Message_DialResponse ResponseStatus "DialStatus option" "32 word"
  | Message_DialDataRequest "32 word" "64 word"
  | Message_DialDataResponse bytes
  | Message_Nil

text \<open>What the handler and the dial back do to the world, in the order they do it.\<close>

datatype ('p, 'ma) dialEvent =
    PeerstoreAddAddr 'p 'ma
  | Connect 'p
  | NewStream 'p
  | DialBackWriteMsg "64 word"
  | DialBackReset
  | DialBackCloseWrite
  | DialBackRead
  | DialBackClose
  | Cancel
  | ClosePeer 'p
  | PeerstoreClearAddrs 'p
  | PeerstoreRemovePeer 'p

datatype ('p, 'ma) event =
    EvReset
  | EvClose
  | EvReleaseMemory
  | EvWriteMsg Message
  | EvReadMsg
  | EvAccept 'p bool
  | EvAcceptDialDataRequest 'p bool
  | EvCompleteRequest 'p
  | EvDialer "('p, 'ma) dialEvent"

text \<open>
  The inbound stream while the handler runs: the results the coming \<^verbatim>\<open>ReadMsg\<close> calls
  will give (\<open>None\<close> an error; past the end of the list every read fails, as at the end
  of the stream or at its deadline), the results of the coming \<^verbatim>\<open>WriteMsg\<close> calls
  (\<open>True\<close> an error; past the end of the list every write succeeds), and the events so
  far.
\<close>

record ('p, 'ma) io =
  pendingReads :: "Message option list"
  pendingWriteErrs :: "bool list"
  trace :: "('p, 'ma) event list"

definition WriteMsg :: "Message \<Rightarrow> ('p, 'ma) io \<Rightarrow> bool \<times> ('p, 'ma) io" where
  "WriteMsg m s =
     (case pendingWriteErrs s of
        [] \<Rightarrow> (False, s\<lparr>trace := trace s @ [EvWriteMsg m]\<rparr>)
      | e # es \<Rightarrow> (e, s\<lparr>pendingWriteErrs := es, trace := trace s @ [EvWriteMsg m]\<rparr>))"

definition ReadMsg :: "('p, 'ma) io \<Rightarrow> Message option \<times> ('p, 'ma) io" where
  "ReadMsg s =
     (case pendingReads s of
        [] \<Rightarrow> (None, s\<lparr>trace := trace s @ [EvReadMsg]\<rparr>)
      | m # ms \<Rightarrow> (m, s\<lparr>pendingReads := ms, trace := trace s @ [EvReadMsg]\<rparr>))"

definition emit :: "('p, 'ma) event list \<Rightarrow> ('p, 'ma) io \<Rightarrow> ('p, 'ma) io" where
  "emit es s = s\<lparr>trace := trace s @ es\<rparr>"

text \<open>
  The connection of the inbound stream, and the answers of the libraries and of the two
  hosts that the handler asks about an address: \<^verbatim>\<open>ma.NewMultiaddrBytes\<close> (\<open>None\<close> an
  error), \<^verbatim>\<open>manet.IsPublicAddr\<close>, whether \<^verbatim>\<open>ValueForProtocol(ma.P_CIRCUIT)\<close> finds a value,
  and whether \<^verbatim>\<open>CanDial\<close> of the dialer host and of the host answers
  \<^verbatim>\<open>DialabilityDialable\<close>.
\<close>

record ('p, 'ma) conn =
  RemotePeer :: 'p
  RemoteMultiaddr :: 'ma
  LocalMultiaddr :: 'ma

record ('p, 'ma) world =
  NewMultiaddrBytes :: "bytes \<Rightarrow> 'ma option"
  IsPublicAddr :: "'ma \<Rightarrow> bool"
  HasCircuit :: "'ma \<Rightarrow> bool"
  DialerHostCanDial :: "'p \<Rightarrow> 'ma \<Rightarrow> bool"
  HostCanDial :: "'p \<Rightarrow> 'ma \<Rightarrow> bool"

section \<open>The dial-data policy\<close>

text \<open>
  \<^verbatim>\<open>amplificationAttackPrevention\<close> (lines 403--410). \<^verbatim>\<open>manet.ToIP\<close> is the argument
  \<open>toIP\<close> (\<open>None\<close> an error) and \<^verbatim>\<open>net.IP.Equal\<close> the argument \<open>ipEqual\<close>; its second
  argument is \<open>None\<close> for the nil IP that is left in \<^verbatim>\<open>dialIP\<close> when the error of the
  second \<^verbatim>\<open>ToIP\<close> is dropped.
\<close>

definition amplificationAttackPrevention ::
  "('ma \<Rightarrow> 'ip option) \<Rightarrow> ('ip \<Rightarrow> 'ip option \<Rightarrow> bool) \<Rightarrow> ('p, 'ma) conn \<Rightarrow> 'ma \<Rightarrow> bool" where
  "amplificationAttackPrevention toIP ipEqual c dialAddr =
     (case toIP (RemoteMultiaddr c) of
        None \<Rightarrow> True
      | Some connIP \<Rightarrow>
          (let dialIP = toIP (LocalMultiaddr c)
           in \<not> ipEqual connIP dialIP))"

section \<open>The dial-data exchange\<close>

text \<open>
  \<^verbatim>\<open>rand.Intn\<close> gives a number of \<open>[0, n)\<close> and panics when \<open>n\<close> is not positive. The
  generator's draw is the argument \<open>rnd\<close>, reduced into the interval.
\<close>

definition Intn :: "nat \<Rightarrow> int \<Rightarrow> panic + int" where
  "Intn rnd n = (if n \<le> 0 then Inl IntnNonPositive else Inr (int rnd mod n))"

datatype dialDataError =
    DialDataWrite
  | DialDataRead
  | InvalidMsgType
  | DialDataMsgTooSmall nat

text \<open>The loop of \<^verbatim>\<open>getDialData\<close> (lines 232--244).\<close>

function dialDataLoop ::
  "int \<Rightarrow> ('p, 'ma) io \<Rightarrow> dialDataError option \<times> ('p, 'ma) io" where
  "dialDataLoop remain s =
     (if remain > 0 then
        (case ReadMsg s of
           (None, s') \<Rightarrow> (Some DialDataRead, s')
         | (Some m, s') \<Rightarrow>
             (case m of
                Message_DialDataResponse d \<Rightarrow>
                  (let remain' = remain - int (length d)
                   in if int (length d) < 100 \<and> remain' > 0
                      then (Some (DialDataMsgTooSmall (length d)), s')
                      else dialDataLoop remain' s')
              | _ \<Rightarrow> (Some InvalidMsgType, s')))
      else (None, s))"
  by pat_completeness auto
termination
  by (relation "measure (\<lambda>(remain, s). length (pendingReads s))")
     (auto simp: ReadMsg_def split: list.splits)

declare dialDataLoop.simps [simp del]

text \<open>
  \<^verbatim>\<open>getDialData\<close> (lines 219--246). The two constants \<^verbatim>\<open>minHandshakeSizeBytes\<close> and
  \<^verbatim>\<open>maxHandshakeSizeBytes\<close> are declared outside the sources at hand and are the
  arguments \<open>minHS\<close> and \<open>maxHS\<close>. The result is the error (\<open>None\<close> for nil) and the
  stream after the call.
\<close>

definition getDialData ::
  "int \<Rightarrow> int \<Rightarrow> nat \<Rightarrow> ('p, 'ma) io \<Rightarrow> nat
     \<Rightarrow> panic + (dialDataError option \<times> ('p, 'ma) io)" where
  "getDialData minHS maxHS rnd s addrIdx =
     (case Intn rnd (maxHS - minHS) of
        Inl x \<Rightarrow> Inl x
      | Inr k \<Rightarrow>
          (let numBytes = minHS + k
           in case WriteMsg (Message_DialDataRequest (of_nat addrIdx) (word_of_int numBytes)) s of
                (True, s1) \<Rightarrow> Inr (Some DialDataWrite, s1)
              | (False, s1) \<Rightarrow> Inr (dialDataLoop numBytes s1)))"

section \<open>The dial back\<close>

text \<open>
  What the dialer host answers during one dial back: whether \<^verbatim>\<open>Connect\<close>,
  \<^verbatim>\<open>NewStream\<close>, the write of the \<^verbatim>\<open>DialBack\<close> message and the read of one byte fail.
\<close>

record dialer =
  connectErr :: bool
  newStreamErr :: bool
  dialBackWriteErr :: bool
  dialBackReadErr :: bool

text \<open>
  \<^verbatim>\<open>dialBack\<close> (lines 248--289): the status and the events on the dialer host. The
  deferred calls run at the return, the last deferred first.
\<close>

definition dialBack ::
  "dialer \<Rightarrow> 'p \<Rightarrow> 'ma \<Rightarrow> 64 word \<Rightarrow> DialStatus \<times> ('p, 'ma) dialEvent list" where
  "dialBack d p addr nonce =
     (let deferred = [Cancel, ClosePeer p, PeerstoreClearAddrs p, PeerstoreRemovePeer p]
      in if connectErr d then
           (DialStatus_E_DIAL_ERROR, [PeerstoreAddAddr p addr, Connect p] @ deferred)
         else if newStreamErr d then
           (DialStatus_E_DIAL_BACK_ERROR,
            [PeerstoreAddAddr p addr, Connect p, NewStream p] @ deferred)
         else if dialBackWriteErr d then
           (DialStatus_E_DIAL_BACK_ERROR,
            [PeerstoreAddAddr p addr, Connect p, NewStream p, DialBackWriteMsg nonce,
             DialBackReset, DialBackClose] @ deferred)
         else
           (DialStatus_OK,
            [PeerstoreAddAddr p addr, Connect p, NewStream p, DialBackWriteMsg nonce,
             DialBackCloseWrite, DialBackRead, DialBackClose] @ deferred))"

section \<open>The request handler\<close>

text \<open>
  Modelled from the spec: the constant \<^verbatim>\<open>maxPeerAddresses\<close> is declared outside the
  sources at hand; the spec gives \<^verbatim>\<open>MAX_PEER_ADDRESSES\<close> = 50.
\<close>

definition maxPeerAddresses :: nat where
  "maxPeerAddresses = 50"

text \<open>
  The address loop (lines 128--156) from index \<open>i\<close>: the pair of \<^verbatim>\<open>dialAddr\<close> (\<open>None\<close>
  for nil) and \<^verbatim>\<open>addrIdx\<close>, which stay nil and 0 when the loop ends without a choice.
\<close>

fun selectAddr ::
  "('p, 'ma) world \<Rightarrow> bool \<Rightarrow> 'p \<Rightarrow> nat \<Rightarrow> bytes list \<Rightarrow> 'ma option \<times> nat" where
  "selectAddr w allow p i [] = (None, 0)"
| "selectAddr w allow p i (ab # rest) =
     (if i \<ge> maxPeerAddresses then (None, 0)
      else
        (case NewMultiaddrBytes w ab of
           None \<Rightarrow> selectAddr w allow p (Suc i) rest
         | Some a \<Rightarrow>
             if \<not> allow \<and> \<not> IsPublicAddr w a then selectAddr w allow p (Suc i) rest
             else if HasCircuit w a then selectAddr w allow p (Suc i) rest
             else if \<not> DialerHostCanDial w p a then selectAddr w allow p (Suc i) rest
             else if \<not> HostCanDial w p a then selectAddr w allow p (Suc i) rest
             else (Some a, i)))"

text \<open>
  The fields of \<^verbatim>\<open>server\<close> that are plain values. The two hosts answer through the
  \<open>world\<close>, the limiter is the state passed along, and the clock is read from the run.
\<close>

record ('p, 'ma) server =
  dialDataRequestPolicy :: "('p, 'ma) conn \<Rightarrow> 'ma \<Rightarrow> bool"
  allowPrivateAddrs :: bool

text \<open>
  Everything one run of the handler receives from outside: the failures of the two scope
  calls, the connection, the inbound messages and the write results of the stream, the
  clock readings of the two limiter calls, the generator's draw and the answers of the
  dialer host.
\<close>

record ('p, 'ma) run =
  setServiceErr :: bool
  reserveMemoryErr :: bool
  streamConn :: "('p, 'ma) conn"
  inbound :: "Message option list"
  writeErrs :: "bool list"
  acceptNow :: time
  dialDataNow :: time
  randDraw :: nat
  dialerAnswers :: dialer

definition requestRejected :: Message where
  "requestRejected = Message_DialResponse DialResponse_E_REQUEST_REJECTED None 0"

definition dialRefused :: Message where
  "dialRefused = Message_DialResponse DialResponse_E_DIAL_REFUSED None 0"

text \<open>
  The way every response leaves (lines 104--110, 167--172, 184--190, 211--215): one
  \<^verbatim>\<open>WriteMsg\<close>, the stream reset when it fails, and the return.
\<close>

definition writeResponse :: "Message \<Rightarrow> ('p, 'ma) io \<Rightarrow> ('p, 'ma) io" where
  "writeResponse m s =
     (case WriteMsg m s of
        (True, s') \<Rightarrow> emit [EvReset] s'
      | (False, s') \<Rightarrow> s')"

text \<open>Lines 201--215: the dial back and the response that reports it.\<close>

definition dialAndRespond ::
  "('p, 'ma) run \<Rightarrow> 'ma \<Rightarrow> nat \<Rightarrow> 64 word \<Rightarrow> ('p, 'ma) io \<Rightarrow> ('p, 'ma) io" where
  "dialAndRespond e dialAddr addrIdx nonce s =
     (case dialBack (dialerAnswers e) (RemotePeer (streamConn e)) dialAddr nonce of
        (dialStatus, evs) \<Rightarrow>
          writeResponse
            (Message_DialResponse DialResponse_OK (Some dialStatus) (of_nat addrIdx))
            (emit (map EvDialer evs) s))"

text \<open>
  Lines 175--215: from the policy to the response, for the chosen address. A stage gives
  the stream as it leaves it, and the limiter or the panic that ended it.
\<close>

definition dialStage ::
  "int \<Rightarrow> int \<Rightarrow> ('p, 'ma) server \<Rightarrow> ('p, 'ma) run \<Rightarrow> 'p \<Rightarrow> 'ma \<Rightarrow> nat \<Rightarrow> 64 word
     \<Rightarrow> 'p rateLimiter \<Rightarrow> ('p, 'ma) io \<Rightarrow> ('p, 'ma) io \<times> (panic + 'p rateLimiter)" where
  "dialStage minHS maxHS srv e p dialAddr addrIdx nonce r s =
     (let isDialDataRequired = dialDataRequestPolicy srv (streamConn e) dialAddr
      in case AcceptDialDataRequest (dialDataNow e) p r of
           Inl x \<Rightarrow> (s, Inl x)
         | Inr (ok, r') \<Rightarrow>
             (let s1 = emit [EvAcceptDialDataRequest p ok] s
              in if \<not> ok then (writeResponse requestRejected s1, Inr r')
                 else
                   (case (if isDialDataRequired
                          then getDialData minHS maxHS (randDraw e) s1 addrIdx
                          else Inr (None, s1)) of
                      Inl x \<Rightarrow> (s1, Inl x)
                    | Inr (Some err, s2) \<Rightarrow> (emit [EvReset] s2, Inr r')
                    | Inr (None, s2) \<Rightarrow>
                        (dialAndRespond e dialAddr addrIdx nonce s2, Inr r'))))"

text \<open>Lines 114--173, and on to the dial stage: from the read of the request.\<close>

definition requestStage ::
  "int \<Rightarrow> int \<Rightarrow> ('p, 'ma) world \<Rightarrow> ('p, 'ma) server \<Rightarrow> ('p, 'ma) run \<Rightarrow> 'p
     \<Rightarrow> 'p rateLimiter \<Rightarrow> ('p, 'ma) io \<Rightarrow> ('p, 'ma) io \<times> (panic + 'p rateLimiter)" where
  "requestStage minHS maxHS w srv e p r s =
     (case ReadMsg s of
        (None, s1) \<Rightarrow> (emit [EvReset] s1, Inr r)
      | (Some msg, s1) \<Rightarrow>
          (case msg of
             Message_DialRequest addrs nonce \<Rightarrow>
               (case selectAddr w (allowPrivateAddrs srv) p 0 addrs of
                  (None, addrIdx) \<Rightarrow> (writeResponse dialRefused s1, Inr r)
                | (Some dialAddr, addrIdx) \<Rightarrow>
                    dialStage minHS maxHS srv e p dialAddr addrIdx nonce r s1)
           | _ \<Rightarrow> (emit [EvReset] s1, Inr r)))"

text \<open>
  \<^verbatim>\<open>handleDialRequest\<close> (lines 74--216): the events of the run, and the limiter after
  it or the panic that ended it. The deferred calls close every path after their
  \<^verbatim>\<open>defer\<close>, the last deferred first; they run after a panic as well.
\<close>

definition handleDialRequest ::
  "int \<Rightarrow> int \<Rightarrow> ('p, 'ma) world \<Rightarrow> ('p, 'ma) server \<Rightarrow> ('p, 'ma) run \<Rightarrow> 'p rateLimiter
     \<Rightarrow> ('p, 'ma) event list \<times> (panic + 'p rateLimiter)" where
  "handleDialRequest minHS maxHS w srv e r =
     (let s0 = \<lparr>pendingReads = inbound e, pendingWriteErrs = writeErrs e, trace = []\<rparr>;
          p = RemotePeer (streamConn e)
      in if setServiceErr e then ([EvReset], Inr r)
         else if reserveMemoryErr e then ([EvReset], Inr r)
         else
           (case Accept (acceptNow e) p r of
              Inl x \<Rightarrow> ([EvClose, EvReleaseMemory], Inl x)
            | Inr (False, r1) \<Rightarrow>
                (trace (writeResponse requestRejected (emit [EvAccept p False] s0))
                   @ [EvClose, EvReleaseMemory],
                 Inr r1)
            | Inr (True, r1) \<Rightarrow>
                (case requestStage minHS maxHS w srv e p r1 (emit [EvAccept p True] s0) of
                   (s', Inl x) \<Rightarrow>
                     (trace s' @ [EvCompleteRequest p, EvClose, EvReleaseMemory], Inl x)
                 | (s', Inr r2) \<Rightarrow>
                     (trace s' @ [EvCompleteRequest p, EvClose, EvReleaseMemory],
                      Inr (CompleteRequest p r2)))))"

section \<open>Notions used in the statements\<close>

text \<open>
  The limiter that \<^verbatim>\<open>newServer\<close> builds (lines 49--54): the three quotas, and every
  other field at its zero value.
\<close>

definition newLimiter :: "int \<Rightarrow> int \<Rightarrow> int \<Rightarrow> 'p rateLimiter" where
  "newLimiter rpm perPeer dialData =
     \<lparr>PerPeerRPM = perPeer, RPM = rpm, DialDataRPM = dialData, reqs = [],
      peerReqs = None, dialDataReqs = [], ongoingReqs = None\<rparr>"




text \<open>
  Multiaddresses for trying the statements: an IPv4 address with a TCP port, or a DNS
  name. An address reduces to its four octets; a name does not reduce to an IP. Two IPs
  are equal when their octets are, and no IP equals the nil IP.
\<close>

datatype exAddr = IP4 nat nat nat nat nat | DNS string

fun exToIP :: "exAddr \<Rightarrow> (nat \<times> nat \<times> nat \<times> nat) option" where
  "exToIP (IP4 a b c d port) = Some (a, b, c, d)"
| "exToIP (DNS name) = None"

fun exIPEqual :: "(nat \<times> nat \<times> nat \<times> nat) \<Rightarrow> (nat \<times> nat \<times> nat \<times> nat) option \<Rightarrow> bool" where
  "exIPEqual x None = False"
| "exIPEqual x (Some y) = (x = y)"

text \<open>
  An inbound connection from 203.0.113.5 that arrived at the server's address 192.0.2.1,
  and one from a client on the server's own address.
\<close>

definition remoteConn :: "(nat, exAddr) conn" where
  "remoteConn =
     \<lparr>RemotePeer = 11, RemoteMultiaddr = IP4 203 0 113 5 4001,
      LocalMultiaddr = IP4 192 0 2 1 4001\<rparr>"

definition localConn :: "(nat, exAddr) conn" where
  "localConn =
     \<lparr>RemotePeer = 11, RemoteMultiaddr = IP4 192 0 2 1 50000,
      LocalMultiaddr = IP4 192 0 2 1 4001\<rparr>"




text \<open>
  The stream after one \<^verbatim>\<open>ReadMsg\<close> and after one \<^verbatim>\<open>WriteMsg\<close>, whatever the call
  returned, and whether the next \<^verbatim>\<open>WriteMsg\<close> will fail.
\<close>

definition afterRead :: "('p, 'ma) io \<Rightarrow> ('p, 'ma) io" where
  "afterRead s = s\<lparr>pendingReads := tl (pendingReads s), trace := trace s @ [EvReadMsg]\<rparr>"

definition afterWrite :: "Message \<Rightarrow> ('p, 'ma) io \<Rightarrow> ('p, 'ma) io" where
  "afterWrite m s =
     s\<lparr>pendingWriteErrs := tl (pendingWriteErrs s), trace := trace s @ [EvWriteMsg m]\<rparr>"

definition writeFails :: "('p, 'ma) io \<Rightarrow> bool" where
  "writeFails s = (case pendingWriteErrs s of [] \<Rightarrow> False | b # bs \<Rightarrow> b)"

text \<open>
  A stream for trying the dial-data exchange: chunks of 150, 100 and 7 zero bytes are
  waiting, and no write fails.
\<close>

definition chunk :: "nat \<Rightarrow> Message option" where
  "chunk n = Some (Message_DialDataResponse (replicate n 0))"

definition dataStream :: "(nat, exAddr) io" where
  "dataStream =
     \<lparr>pendingReads = [chunk 150, chunk 100, chunk 7], pendingWriteErrs = [], trace = []\<rparr>"

section \<open>Properties of the rate limiter\<close>

lemma Sub_less_Minute: "(Sub now t < Minute) = (now - t < Minute)"
  by (simp add: Sub_def Let_def minDuration_def maxDuration_def Minute_def)

lemma Sub_ge_Minute: "(Minute \<le> Sub now t) = (\<not> now - t < Minute)"
  using Sub_less_Minute [of now t] by linarith











lemma scanReqs_None:
  "scanReqs now d i es None =
     (case es of [] \<Rightarrow> Inr (d, None)
      | e # _ \<Rightarrow> if now - Time e < Minute then Inr (i, None) else Inl AssignNilMap)"
  by (cases es) (simp_all add: Sub_ge_Minute prunePeer_def Let_def)










section \<open>Properties of the cleanup\<close>















section \<open>Properties of the dial-data policy\<close>

text \<open>
  The policy never looks at the address to dial: it compares the remote address of the
  connection with the local address of the connection.
\<close>

lemma amplificationAttackPrevention_ignores_dialAddr:
  "amplificationAttackPrevention toIP ipEqual c a
     = amplificationAttackPrevention toIP ipEqual c b"
  by (simp add: amplificationAttackPrevention_def)

lemma amplificationAttackPrevention_no_IP:
  "toIP (RemoteMultiaddr c) = None \<Longrightarrow> amplificationAttackPrevention toIP ipEqual c a"
  by (simp add: amplificationAttackPrevention_def)

text \<open>
  Claim C1 says that the policy asks for dial data exactly when the IP of the remote
  end of the inbound connection differs from the IP of the address to dial. The code
  differs on two inputs. For the connection from 203.0.113.5 and the address
  203.0.113.5 (port 5000) to dial, the two IPs are equal and the policy asks for dial
  data. For the connection from the server's own IP and the address 198.51.100.7 to
  dial, the two IPs differ and the policy asks for none.
\<close>

theorem amplificationAttackPrevention_failing_input:
  "exToIP (RemoteMultiaddr remoteConn) = exToIP (IP4 203 0 113 5 5000)
   \<and> amplificationAttackPrevention exToIP exIPEqual remoteConn (IP4 203 0 113 5 5000)
   \<and> exToIP (RemoteMultiaddr localConn) \<noteq> exToIP (IP4 198 51 100 7 4001)
   \<and> \<not> amplificationAttackPrevention exToIP exIPEqual localConn (IP4 198 51 100 7 4001)"
  by (simp add: amplificationAttackPrevention_def remoteConn_def localConn_def)

section \<open>Properties of the dial back\<close>

lemma dialBack_cases:
  "dialBack d p a n =
     (if connectErr d then
        (DialStatus_E_DIAL_ERROR,
         [PeerstoreAddAddr p a, Connect p, Cancel, ClosePeer p, PeerstoreClearAddrs p,
          PeerstoreRemovePeer p])
      else if newStreamErr d then
        (DialStatus_E_DIAL_BACK_ERROR,
         [PeerstoreAddAddr p a, Connect p, NewStream p, Cancel, ClosePeer p,
          PeerstoreClearAddrs p, PeerstoreRemovePeer p])
      else if dialBackWriteErr d then
        (DialStatus_E_DIAL_BACK_ERROR,
         [PeerstoreAddAddr p a, Connect p, NewStream p, DialBackWriteMsg n, DialBackReset,
          DialBackClose, Cancel, ClosePeer p, PeerstoreClearAddrs p, PeerstoreRemovePeer p])
      else
        (DialStatus_OK,
         [PeerstoreAddAddr p a, Connect p, NewStream p, DialBackWriteMsg n,
          DialBackCloseWrite, DialBackRead, DialBackClose, Cancel, ClosePeer p,
          PeerstoreClearAddrs p, PeerstoreRemovePeer p]))"
  by (simp add: dialBack_def Let_def)

text \<open>
  Claim C4. For every answer of the dialer host, every peer, address and nonce: the dial
  back returns \<^verbatim>\<open>E_DIAL_ERROR\<close> exactly when \<^verbatim>\<open>Connect\<close> fails; it returns
  \<^verbatim>\<open>E_DIAL_BACK_ERROR\<close> exactly when the connection is there and either \<^verbatim>\<open>NewStream\<close>
  or the write of the \<^verbatim>\<open>DialBack\<close> message fails, and the dial-back stream is reset
  exactly in the second of these cases; it returns \<^verbatim>\<open>OK\<close> exactly when the write
  completed; the message written carries the nonce it was given; and the result of the
  read of one byte changes neither the status nor the events.
\<close>

theorem dialBack_status:
  "(fst (dialBack d p a n) = DialStatus_E_DIAL_ERROR) = connectErr d
   \<and> (fst (dialBack d p a n) = DialStatus_E_DIAL_BACK_ERROR)
       = (\<not> connectErr d \<and> (newStreamErr d \<or> dialBackWriteErr d))
   \<and> (DialBackReset \<in> set (snd (dialBack d p a n)))
       = (\<not> connectErr d \<and> \<not> newStreamErr d \<and> dialBackWriteErr d)
   \<and> (fst (dialBack d p a n) = DialStatus_OK)
       = (\<not> connectErr d \<and> \<not> newStreamErr d \<and> \<not> dialBackWriteErr d)
   \<and> (DialBackWriteMsg n \<in> set (snd (dialBack d p a n)))
       = (\<not> connectErr d \<and> \<not> newStreamErr d)
   \<and> dialBack (d\<lparr>dialBackReadErr := b\<rparr>) p a n = dialBack d p a n"
proof -
  have 1: "(fst (dialBack d p a n) = DialStatus_E_DIAL_ERROR) = connectErr d"
    by (simp add: dialBack_cases)
  have 2: "(fst (dialBack d p a n) = DialStatus_E_DIAL_BACK_ERROR)
       = (\<not> connectErr d \<and> (newStreamErr d \<or> dialBackWriteErr d))"
    by (simp add: dialBack_cases)
  have 3: "(DialBackReset \<in> set (snd (dialBack d p a n)))
       = (\<not> connectErr d \<and> \<not> newStreamErr d \<and> dialBackWriteErr d)"
    by (simp add: dialBack_cases)
  have 4: "(fst (dialBack d p a n) = DialStatus_OK)
       = (\<not> connectErr d \<and> \<not> newStreamErr d \<and> \<not> dialBackWriteErr d)"
    by (simp add: dialBack_cases)
  have 5: "(DialBackWriteMsg n \<in> set (snd (dialBack d p a n)))
       = (\<not> connectErr d \<and> \<not> newStreamErr d)"
    by (simp add: dialBack_cases)
  have 6: "dialBack (d\<lparr>dialBackReadErr := b\<rparr>) p a n = dialBack d p a n"
    by (simp add: dialBack_cases)
  from 1 2 3 4 5 6 show ?thesis by blast
qed

section \<open>Properties of the dial-data exchange\<close>

lemma ReadMsg_Nil: "pendingReads s = [] \<Longrightarrow> ReadMsg s = (None, afterRead s)"
  by (simp add: ReadMsg_def afterRead_def)

lemma ReadMsg_Cons: "pendingReads s = m # ms \<Longrightarrow> ReadMsg s = (m, afterRead s)"
  by (simp add: ReadMsg_def afterRead_def)

lemma afterRead_simps [simp]:
  "pendingReads (afterRead s) = tl (pendingReads s)"
  "trace (afterRead s) = trace s @ [EvReadMsg]"
  "pendingWriteErrs (afterRead s) = pendingWriteErrs s"
  by (simp_all add: afterRead_def)

lemma dialDataLoop_done: "\<not> remain > 0 \<Longrightarrow> dialDataLoop remain s = (None, s)"
  by (subst dialDataLoop.simps) simp

lemma dialDataLoop_Nil:
  "remain > 0 \<Longrightarrow> pendingReads s = [] \<Longrightarrow> dialDataLoop remain s = (Some DialDataRead, afterRead s)"
  by (subst dialDataLoop.simps) (simp add: ReadMsg_Nil)

lemma dialDataLoop_err:
  "remain > 0 \<Longrightarrow> pendingReads s = None # ms
     \<Longrightarrow> dialDataLoop remain s = (Some DialDataRead, afterRead s)"
  by (subst dialDataLoop.simps) (simp add: ReadMsg_Cons)

lemma dialDataLoop_chunk:
  "remain > 0 \<Longrightarrow> pendingReads s = Some (Message_DialDataResponse d) # ms
     \<Longrightarrow> dialDataLoop remain s =
          (if int (length d) < 100 \<and> remain - int (length d) > 0
           then (Some (DialDataMsgTooSmall (length d)), afterRead s)
           else dialDataLoop (remain - int (length d)) (afterRead s))"
  by (subst dialDataLoop.simps) (simp add: ReadMsg_Cons Let_def)

lemma dialDataLoop_small:
  "remain > 0 \<Longrightarrow> pendingReads s = Some (Message_DialDataResponse d) # ms
     \<Longrightarrow> int (length d) < 100 \<and> remain - int (length d) > 0
     \<Longrightarrow> dialDataLoop remain s = (Some (DialDataMsgTooSmall (length d)), afterRead s)"
  by (simp add: dialDataLoop_chunk)

lemma dialDataLoop_next:
  "remain > 0 \<Longrightarrow> pendingReads s = Some (Message_DialDataResponse d) # ms
     \<Longrightarrow> \<not> (int (length d) < 100 \<and> remain - int (length d) > 0)
     \<Longrightarrow> dialDataLoop remain s = dialDataLoop (remain - int (length d)) (afterRead s)"
  by (auto simp add: dialDataLoop_chunk)

lemma dialDataLoop_other:
  "remain > 0 \<Longrightarrow> pendingReads s = Some m # ms \<Longrightarrow> \<forall>d. m \<noteq> Message_DialDataResponse d
     \<Longrightarrow> dialDataLoop remain s = (Some InvalidMsgType, afterRead s)"
  by (subst dialDataLoop.simps) (simp add: ReadMsg_Cons split: Message.split)

lemma dialDataLoop_trace:
  "\<exists>n. trace (snd (dialDataLoop remain s)) = trace s @ replicate n EvReadMsg
       \<and> pendingWriteErrs (snd (dialDataLoop remain s)) = pendingWriteErrs s"
proof (induction "pendingReads s" arbitrary: s remain)
  case Nil
  show ?case
  proof (cases "remain > 0")
    case True
    with Nil have "dialDataLoop remain s = (Some DialDataRead, afterRead s)"
      by (simp add: dialDataLoop_Nil)
    then have "trace (snd (dialDataLoop remain s)) = trace s @ replicate 1 EvReadMsg
       \<and> pendingWriteErrs (snd (dialDataLoop remain s)) = pendingWriteErrs s" by simp
    then show ?thesis by blast
  next
    case False
    then have "trace (snd (dialDataLoop remain s)) = trace s @ replicate 0 EvReadMsg
       \<and> pendingWriteErrs (snd (dialDataLoop remain s)) = pendingWriteErrs s"
      by (simp add: dialDataLoop_done)
    then show ?thesis by blast
  qed
next
  case (Cons x xs)
  from Cons.hyps(2) have pr: "pendingReads s = x # xs" by simp
  then have xs: "xs = pendingReads (afterRead s)" by simp
  show ?case
  proof (cases "remain > 0")
    case False
    then have "trace (snd (dialDataLoop remain s)) = trace s @ replicate 0 EvReadMsg
       \<and> pendingWriteErrs (snd (dialDataLoop remain s)) = pendingWriteErrs s"
      by (simp add: dialDataLoop_done)
    then show ?thesis by blast
  next
    case True
    have stop: ?thesis if "snd (dialDataLoop remain s) = afterRead s"
    proof -
      from that have "trace (snd (dialDataLoop remain s)) = trace s @ replicate 1 EvReadMsg
       \<and> pendingWriteErrs (snd (dialDataLoop remain s)) = pendingWriteErrs s" by simp
      then show ?thesis by blast
    qed
    show ?thesis
    proof (cases x)
      case None
      with True pr have "dialDataLoop remain s = (Some DialDataRead, afterRead s)"
        by (simp add: dialDataLoop_err)
      then show ?thesis by (intro stop) simp
    next
      case (Some m)
      show ?thesis
      proof (cases "\<exists>d. m = Message_DialDataResponse d")
        case False
        with True pr Some have "dialDataLoop remain s = (Some InvalidMsgType, afterRead s)"
          by (simp add: dialDataLoop_other)
        then show ?thesis by (intro stop) simp
      next
        case True
        then obtain d where d: "m = Message_DialDataResponse d" by blast
        note pr' = pr [unfolded Some d]
        show ?thesis
        proof (cases "int (length d) < 100 \<and> remain - int (length d) > 0")
          case True
          from dialDataLoop_small [OF \<open>remain > 0\<close> pr' True]
          show ?thesis by (intro stop) simp
        next
          case False
          have eq: "dialDataLoop remain s
                  = dialDataLoop (remain - int (length d)) (afterRead s)"
            using \<open>remain > 0\<close> pr' False by (rule dialDataLoop_next)
          from Cons.hyps(1) [OF xs, of "remain - int (length d)"]
          obtain n where
            "trace (snd (dialDataLoop (remain - int (length d)) (afterRead s)))
               = trace (afterRead s) @ replicate n EvReadMsg"
            "pendingWriteErrs (snd (dialDataLoop (remain - int (length d)) (afterRead s)))
               = pendingWriteErrs (afterRead s)" by blast
          then have "trace (snd (dialDataLoop remain s)) = trace s @ replicate (Suc n) EvReadMsg
            \<and> pendingWriteErrs (snd (dialDataLoop remain s)) = pendingWriteErrs s"
            by (simp add: eq replicate_append_same [symmetric] del: replicate_Suc replicate.simps)
               (simp add: replicate_append_same)
          then show ?thesis by blast
        qed
      qed
    qed
  qed
qed

lemma dialDataLoop_success:
  assumes "dialDataLoop remain s = (None, s')"
  shows "\<exists>ds. pendingReads s = map (\<lambda>d. Some (Message_DialDataResponse d)) ds @ pendingReads s'
            \<and> trace s' = trace s @ replicate (length ds) EvReadMsg
            \<and> remain \<le> sum_list (map (\<lambda>d. int (length d)) ds)"
  using assms
proof (induction "pendingReads s" arbitrary: s remain)
  case Nil
  have "\<not> remain > 0"
  proof
    assume "remain > 0"
    with Nil.hyps have "dialDataLoop remain s = (Some DialDataRead, afterRead s)"
      by (simp add: dialDataLoop_Nil)
    with Nil.prems show False by simp
  qed
  with Nil.prems have "s' = s" "remain \<le> 0" by (simp_all add: dialDataLoop_done)
  then have "pendingReads s = map (\<lambda>d. Some (Message_DialDataResponse d)) [] @ pendingReads s'
            \<and> trace s' = trace s @ replicate (length []) EvReadMsg
            \<and> remain \<le> sum_list (map (\<lambda>d. int (length d)) [])" by simp
  then show ?case by blast
next
  case (Cons x xs)
  from Cons.hyps(2) have pr: "pendingReads s = x # xs" by simp
  then have xs: "xs = pendingReads (afterRead s)" by simp
  show ?case
  proof (cases "remain > 0")
    case False
    with Cons.prems have "s' = s" "remain \<le> 0" by (simp_all add: dialDataLoop_done)
    then have "pendingReads s = map (\<lambda>d. Some (Message_DialDataResponse d)) [] @ pendingReads s'
            \<and> trace s' = trace s @ replicate (length []) EvReadMsg
            \<and> remain \<le> sum_list (map (\<lambda>d. int (length d)) [])" by simp
    then show ?thesis by blast
  next
    case True
    have x: "\<exists>d. x = Some (Message_DialDataResponse d)"
    proof (rule ccontr)
      assume n: "\<not> ?thesis"
      have "fst (dialDataLoop remain s) \<noteq> None"
      proof (cases x)
        case None
        with True pr show ?thesis by (simp add: dialDataLoop_err)
      next
        case (Some m)
        with n have "\<forall>d. m \<noteq> Message_DialDataResponse d" by simp
        with True pr Some show ?thesis by (simp add: dialDataLoop_other)
      qed
      with Cons.prems show False by simp
    qed
    then obtain d where d: "x = Some (Message_DialDataResponse d)" by blast
    note pr' = pr [unfolded d]
    have ok: "\<not> (int (length d) < 100 \<and> remain - int (length d) > 0)"
    proof
      assume "int (length d) < 100 \<and> remain - int (length d) > 0"
      from dialDataLoop_small [OF True pr' this] Cons.prems show False by simp
    qed
    have "dialDataLoop remain s = dialDataLoop (remain - int (length d)) (afterRead s)"
      using True pr' ok by (rule dialDataLoop_next)
    with Cons.prems have "dialDataLoop (remain - int (length d)) (afterRead s) = (None, s')"
      by simp
    from Cons.hyps(1) [OF xs this] obtain ds where
      1: "pendingReads (afterRead s)
            = map (\<lambda>d. Some (Message_DialDataResponse d)) ds @ pendingReads s'"
      and 2: "trace s' = trace (afterRead s) @ replicate (length ds) EvReadMsg"
      and 3: "remain - int (length d) \<le> sum_list (map (\<lambda>d. int (length d)) ds)" by blast
    have "pendingReads s = map (\<lambda>d. Some (Message_DialDataResponse d)) (d # ds) @ pendingReads s'"
      using 1 pr' by simp
    moreover have "trace s' = trace s @ replicate (length (d # ds)) EvReadMsg"
      using 2 by (simp add: replicate_append_same)
    moreover have "remain \<le> sum_list (map (\<lambda>d. int (length d)) (d # ds))"
      using 3 by simp
    ultimately show ?thesis by blast
  qed
qed

lemma dialDataLoop_prefix:
  assumes "pendingReads s = map (\<lambda>d. Some (Message_DialDataResponse d)) ds @ rest"
    and "\<forall>d\<in>set ds. 100 \<le> length d"
    and "sum_list (map (\<lambda>d. int (length d)) ds) < remain"
  shows "\<exists>s1. pendingReads s1 = rest
            \<and> trace s1 = trace s @ replicate (length ds) EvReadMsg
            \<and> pendingWriteErrs s1 = pendingWriteErrs s
            \<and> dialDataLoop remain s
                = dialDataLoop (remain - sum_list (map (\<lambda>d. int (length d)) ds)) s1"
  using assms
proof (induction ds arbitrary: s remain)
  case Nil
  then have "pendingReads s = rest \<and> trace s = trace s @ replicate (length []) EvReadMsg
     \<and> pendingWriteErrs s = pendingWriteErrs s
     \<and> dialDataLoop remain s = dialDataLoop (remain - sum_list (map (\<lambda>d. int (length d)) [])) s"
    by simp
  then show ?case by blast
next
  case (Cons d ds)
  have "0 \<le> sum_list (map (\<lambda>d. int (length d)) (d # ds))"
    by (rule sum_list_nonneg) auto
  with Cons.prems(3) have pos: "remain > 0" by linarith
  from Cons.prems(1) have pr: "pendingReads s
     = Some (Message_DialDataResponse d) # (map (\<lambda>d. Some (Message_DialDataResponse d)) ds @ rest)"
    by simp
  from Cons.prems(2) have "\<not> (int (length d) < 100 \<and> remain - int (length d) > 0)" by simp
  with pos pr have eq: "dialDataLoop remain s
      = dialDataLoop (remain - int (length d)) (afterRead s)" by (rule dialDataLoop_next)
  have a: "pendingReads (afterRead s) = map (\<lambda>d. Some (Message_DialDataResponse d)) ds @ rest"
    using pr by simp
  have b: "\<forall>d\<in>set ds. 100 \<le> length d" using Cons.prems(2) by simp
  have c: "sum_list (map (\<lambda>d. int (length d)) ds) < remain - int (length d)"
    using Cons.prems(3) by simp
  from Cons.IH [OF a b c] obtain s1 where
    "pendingReads s1 = rest" "trace s1 = trace (afterRead s) @ replicate (length ds) EvReadMsg"
    "pendingWriteErrs s1 = pendingWriteErrs (afterRead s)"
    "dialDataLoop (remain - int (length d)) (afterRead s)
       = dialDataLoop (remain - int (length d) - sum_list (map (\<lambda>d. int (length d)) ds)) s1"
    by blast
  then have "pendingReads s1 = rest
     \<and> trace s1 = trace s @ replicate (length (d # ds)) EvReadMsg
     \<and> pendingWriteErrs s1 = pendingWriteErrs s
     \<and> dialDataLoop remain s
         = dialDataLoop (remain - sum_list (map (\<lambda>d. int (length d)) (d # ds))) s1"
    by (simp add: eq replicate_append_same diff_diff_eq)
  then show ?case by blast
qed

lemma WriteMsg_eq: "WriteMsg m s = (writeFails s, afterWrite m s)"
  by (simp add: WriteMsg_def writeFails_def afterWrite_def split: list.split)

lemma afterWrite_simps [simp]:
  "pendingReads (afterWrite m s) = pendingReads s"
  "trace (afterWrite m s) = trace s @ [EvWriteMsg m]"
  "pendingWriteErrs (afterWrite m s) = tl (pendingWriteErrs s)"
  by (simp_all add: afterWrite_def)

lemma getDialData_eq:
  assumes "Intn rnd (maxHS - minHS) = Inr k"
  shows "getDialData minHS maxHS rnd s addrIdx =
     (if writeFails s
      then Inr (Some DialDataWrite,
                afterWrite (Message_DialDataRequest (of_nat addrIdx) (word_of_int (minHS + k))) s)
      else Inr (dialDataLoop (minHS + k)
                (afterWrite (Message_DialDataRequest (of_nat addrIdx) (word_of_int (minHS + k))) s)))"
  by (simp add: getDialData_def assms WriteMsg_eq Let_def)

lemma Intn_range: "Intn rnd n = Inr k \<Longrightarrow> 0 \<le> k \<and> k < n"
  by (auto simp: Intn_def split: if_splits)

text \<open>
  Claim C7. Whenever \<^verbatim>\<open>getDialData\<close> returns without an error: the number of bytes
  it asked for lies in \<open>[minHS, maxHS)\<close>; the first thing it did on the stream was to
  write one \<^verbatim>\<open>DialDataRequest\<close> with the address index and that number, converted to
  \<^verbatim>\<open>uint32\<close> and \<^verbatim>\<open>uint64\<close>, and only then did it read; every message it read was a
  \<^verbatim>\<open>DialDataResponse\<close>; and the lengths of their payloads add up to at least the number
  asked for. The conversions keep the values: an index below \<^verbatim>\<open>maxPeerAddresses\<close> fits
  32 bits, and the number of bytes fits 64 bits when the two constants lie between 0
  and \<open>2 ^ 64\<close>.
\<close>

theorem getDialData_success:
  assumes "getDialData minHS maxHS rnd s addrIdx = Inr (None, s')"
  shows "\<exists>numBytes ds.
      minHS \<le> numBytes \<and> numBytes < maxHS
      \<and> trace s' = trace s
           @ EvWriteMsg (Message_DialDataRequest (of_nat addrIdx) (word_of_int numBytes))
           # replicate (length ds) EvReadMsg
      \<and> pendingReads s = map (\<lambda>d. Some (Message_DialDataResponse d)) ds @ pendingReads s'
      \<and> numBytes \<le> sum_list (map (\<lambda>d. int (length d)) ds)
      \<and> (addrIdx < maxPeerAddresses \<longrightarrow> unat (of_nat addrIdx :: 32 word) = addrIdx)
      \<and> (0 \<le> minHS \<and> maxHS \<le> 2 ^ 64 \<longrightarrow> uint (word_of_int numBytes :: 64 word) = numBytes)"
proof -
  obtain k where k: "Intn rnd (maxHS - minHS) = Inr k"
    using assms by (cases "Intn rnd (maxHS - minHS)") (simp_all add: getDialData_def)
  let ?n = "minHS + k"
  let ?s1 = "afterWrite (Message_DialDataRequest (of_nat addrIdx) (word_of_int ?n)) s"
  from Intn_range [OF k] have r: "minHS \<le> ?n" "?n < maxHS" by simp_all
  from assms have loop: "dialDataLoop ?n ?s1 = (None, s')"
    by (simp add: getDialData_eq [OF k] split: if_splits)
  from dialDataLoop_success [OF loop] obtain ds where
    1: "pendingReads ?s1 = map (\<lambda>d. Some (Message_DialDataResponse d)) ds @ pendingReads s'"
    and 2: "trace s' = trace ?s1 @ replicate (length ds) EvReadMsg"
    and 3: "?n \<le> sum_list (map (\<lambda>d. int (length d)) ds)" by blast
  have 4: "addrIdx < maxPeerAddresses \<longrightarrow> unat (of_nat addrIdx :: 32 word) = addrIdx"
    by (simp add: maxPeerAddresses_def unat_of_nat)
  have 5: "0 \<le> minHS \<and> maxHS \<le> 2 ^ 64 \<longrightarrow> uint (word_of_int ?n :: 64 word) = ?n"
  proof
    assume "0 \<le> minHS \<and> maxHS \<le> 2 ^ 64"
    with r have b: "0 \<le> ?n" "?n < 2 ^ 64" by simp_all
    have "uint (word_of_int n :: 64 word) = n" if "0 \<le> n" "n < 2 ^ 64" for n :: int
      using that by (simp add: uint_word_of_int)
    from this [OF b] show "uint (word_of_int ?n :: 64 word) = ?n" .
  qed
  from r 1 2 3 4 5 show ?thesis by (intro exI [of _ ?n] exI [of _ ds]) simp
qed

lemma getDialData_dataStream:
  "getDialData 200 300 450 dataStream 3 =
     Inr (None,
          \<lparr>pendingReads = [chunk 7], pendingWriteErrs = [],
            trace = [EvWriteMsg (Message_DialDataRequest 3 250), EvReadMsg, EvReadMsg]\<rparr>)"
  by (simp add: getDialData_def Intn_def WriteMsg_def dataStream_def chunk_def
        dialDataLoop.simps ReadMsg_def)

theorem getDialData_success_witness:
  "getDialData 200 300 450 dataStream 3 =
     Inr (None,
          \<lparr>pendingReads = [chunk 7], pendingWriteErrs = [],
            trace = [EvWriteMsg (Message_DialDataRequest 3 250), EvReadMsg, EvReadMsg]\<rparr>)
   \<and> (\<exists>numBytes ds.
        (200::int) \<le> numBytes \<and> numBytes < 300
        \<and> [EvWriteMsg (Message_DialDataRequest 3 250), EvReadMsg, EvReadMsg]
            = EvWriteMsg (Message_DialDataRequest 3 (word_of_int numBytes))
              # replicate (length ds) (EvReadMsg :: (nat, exAddr) event)
        \<and> [chunk 150, chunk 100, chunk 7]
            = map (\<lambda>d. Some (Message_DialDataResponse d)) ds @ [chunk 7]
        \<and> numBytes \<le> sum_list (map (\<lambda>d. int (length d)) ds)
        \<and> uint (word_of_int numBytes :: 64 word) = numBytes)"
  using getDialData_success [OF getDialData_dataStream] getDialData_dataStream
  by (simp add: dataStream_def maxPeerAddresses_def)

end
